theory Spec2Isabelle
  imports Main "HOL-Library.Sublist"
begin

section \<open>Segment extraction: the crop command of \<open>VideoCroppingService\<close>\<close>

text \<open>
  \<open>CropOptions\<close> of the cropping service. The quality and resolution tiers are the
  string literal unions of the TypeScript interface; an absent field is \<open>None\<close> and
  takes the default of the destructuring in \<open>cropVideo\<close> (\<open>outputFormat = 'mp4'\<close>,
  \<open>quality = 'high'\<close>, \<open>resolution = '720p'\<close>). The fields \<open>startTime\<close>,
  \<open>endTime\<close> and \<open>preserveOriginalQuality\<close> are never read by the service and
  are left out.
\<close>

datatype quality = Lossless | Youtube | High | Medium | Low

datatype resolution = Original | R1080p | R720p | R480p | R360p

datatype outputFormat = Mp4 | Webm

record CropOptions =
  opt_outputFormat :: "outputFormat option"
  opt_quality :: "quality option"
  opt_resolution :: "resolution option"

text \<open>The fields of \<open>Highlight\<close> that the cropping service reads.\<close>

record Highlight =
  h_id :: string
  h_title :: string
  startSeconds :: int
  endSeconds :: int

text \<open>
  The fluent-ffmpeg command object: every builder call of \<open>cropVideo\<close> sets one
  field (\<open>None\<close>: never called); \<open>addOptions\<close> appends to \<open>cmd_options\<close>.
\<close>

record FfmpegCommand =
  cmd_input :: string
  cmd_seekInput :: int
  cmd_duration :: int
  cmd_output :: string
  cmd_videoCodec :: "string option"
  cmd_audioCodec :: "string option"
  cmd_audioChannels :: "nat option"
  cmd_audioFrequency :: "nat option"
  cmd_audioBitrate :: "string option"
  cmd_videoBitrate :: "string option"
  cmd_size :: "string option"
  cmd_options :: "string list"

definition addOptions :: "string list \<Rightarrow> FfmpegCommand \<Rightarrow> FfmpegCommand" where
  "addOptions os c = c\<lparr>cmd_options := cmd_options c @ os\<rparr>"

definition formatName :: "outputFormat \<Rightarrow> string" where
  "formatName f = (case f of Mp4 \<Rightarrow> ''mp4'' | Webm \<Rightarrow> ''webm'')"

definition the_outputFormat :: "CropOptions \<Rightarrow> outputFormat" where
  "the_outputFormat opts = (case opt_outputFormat opts of None \<Rightarrow> Mp4 | Some f \<Rightarrow> f)"

definition the_quality :: "CropOptions \<Rightarrow> quality" where
  "the_quality opts = (case opt_quality opts of None \<Rightarrow> High | Some q \<Rightarrow> q)"

definition the_resolution :: "CropOptions \<Rightarrow> resolution" where
  "the_resolution opts = (case opt_resolution opts of None \<Rightarrow> R720p | Some r \<Rightarrow> r)"

text \<open>The \<open>resolutionMap\<close> object literal; \<open>'original'\<close> is not a key of it.\<close>

definition resolutionMap :: "resolution \<Rightarrow> string option" where
  "resolutionMap r = (case r of
       R1080p \<Rightarrow> Some ''1920x1080''
     | R720p \<Rightarrow> Some ''1280x720''
     | R480p \<Rightarrow> Some ''854x480''
     | R360p \<Rightarrow> Some ''640x360''
     | Original \<Rightarrow> None)"

text \<open>\<open>ffmpeg(inputPath).seekInput(startTime).duration(duration).output(outputPath)\<close>\<close>

definition baseCommand :: "string \<Rightarrow> Highlight \<Rightarrow> string \<Rightarrow> FfmpegCommand" where
  "baseCommand inputPath highlight outputPath =
     \<lparr>cmd_input = inputPath,
      cmd_seekInput = startSeconds highlight,
      cmd_duration = endSeconds highlight - startSeconds highlight,
      cmd_output = outputPath,
      cmd_videoCodec = None, cmd_audioCodec = None, cmd_audioChannels = None,
      cmd_audioFrequency = None, cmd_audioBitrate = None, cmd_videoBitrate = None,
      cmd_size = None, cmd_options = []\<rparr>"

text \<open>The \<open>switch (quality)\<close> of \<open>cropVideo\<close>.\<close>

definition qualitySwitch :: "quality \<Rightarrow> resolution \<Rightarrow> FfmpegCommand \<Rightarrow> FfmpegCommand" where
  "qualitySwitch q res c = (case q of
       Lossless \<Rightarrow>
         addOptions [''-avoid_negative_ts make_zero'', ''-movflags +faststart'']
           (c\<lparr>cmd_videoCodec := Some ''copy'', cmd_audioCodec := Some ''copy''\<rparr>)
     | Youtube \<Rightarrow>
         (let c1 = c\<lparr>cmd_videoCodec := Some ''libx264'', cmd_audioCodec := Some ''aac'',
                      cmd_audioChannels := Some 2, cmd_audioFrequency := Some 48000,
                      cmd_audioBitrate := Some ''320k''\<rparr>
          in if res = R1080p then c1\<lparr>cmd_videoBitrate := Some ''8000k''\<rparr>
             else if res = R720p then c1\<lparr>cmd_videoBitrate := Some ''5000k''\<rparr>
             else c1\<lparr>cmd_videoBitrate := Some ''3000k''\<rparr>)
     | High \<Rightarrow>
         c\<lparr>cmd_videoCodec := Some ''libx264'', cmd_audioCodec := Some ''aac'',
           cmd_audioChannels := Some 2, cmd_audioFrequency := Some 48000,
           cmd_videoBitrate := Some ''4000k'', cmd_audioBitrate := Some ''192k''\<rparr>
     | Medium \<Rightarrow>
         c\<lparr>cmd_videoCodec := Some ''libx264'', cmd_audioCodec := Some ''aac'',
           cmd_audioChannels := Some 2, cmd_audioFrequency := Some 44100,
           cmd_videoBitrate := Some ''2000k'', cmd_audioBitrate := Some ''128k''\<rparr>
     | Low \<Rightarrow>
         c\<lparr>cmd_videoCodec := Some ''libx264'', cmd_audioCodec := Some ''aac'',
           cmd_audioChannels := Some 2, cmd_audioFrequency := Some 44100,
           cmd_videoBitrate := Some ''1000k'', cmd_audioBitrate := Some ''96k''\<rparr>)"

text \<open>
  \<open>if (quality !== 'lossless' && resolution !== 'original')\<close>, then the lookup in
  \<open>resolutionMap\<close> guarding \<open>command.size(...)\<close>.
\<close>

definition setResolution :: "quality \<Rightarrow> resolution \<Rightarrow> FfmpegCommand \<Rightarrow> FfmpegCommand" where
  "setResolution q res c =
     (if q \<noteq> Lossless \<and> res \<noteq> Original then
        (case resolutionMap res of
           Some s \<Rightarrow> (if res \<noteq> Original then c\<lparr>cmd_size := Some s\<rparr> else c)
         | None \<Rightarrow> c)
      else c)"

text \<open>The additional options by quality setting (none for lossless).\<close>

definition extraOptions :: "quality \<Rightarrow> FfmpegCommand \<Rightarrow> FfmpegCommand" where
  "extraOptions q c =
     (if q = Lossless then c
      else if q = Youtube then
        addOptions [''-preset medium'', ''-profile:v high'', ''-level 4.0'',
                    ''-pix_fmt yuv420p'', ''-movflags +faststart'',
                    ''-avoid_negative_ts make_zero'', ''-g 30'', ''-keyint_min 30'',
                    ''-sc_threshold 0'', ''-b_strategy 1'', ''-bf 3'', ''-refs 3''] c
      else
        addOptions [''-preset medium'', ''-profile:v high'', ''-pix_fmt yuv420p'',
                    ''-movflags +faststart'', ''-avoid_negative_ts make_zero''] c)"

text \<open>The command that \<open>cropVideo\<close> hands to \<open>run()\<close>.\<close>

definition cropCommand ::
  "string \<Rightarrow> Highlight \<Rightarrow> string \<Rightarrow> CropOptions \<Rightarrow> FfmpegCommand" where
  "cropCommand inputPath highlight outputPath opts =
     (let q = the_quality opts; res = the_resolution opts
      in extraOptions q (setResolution q res
           (qualitySwitch q res (baseCommand inputPath highlight outputPath))))"

section \<open>Segment extraction: running crops\<close>

text \<open>Decimal rendering of a number inside a template literal.\<close>

fun showNat :: "nat \<Rightarrow> string" where
  "showNat n =
     (if n < 10 then [''0123456789'' ! n]
      else showNat (n div 10) @ [''0123456789'' ! (n mod 10)])"

declare showNat.simps [simp del]

text \<open>
  \<open>path.join(dir, file)\<close> of Node on a POSIX system (the service names its encoder
  \<open>/usr/bin/ffmpeg\<close>): the non-empty arguments joined by a slash, then
  \<open>path.normalize\<close>, which drops empty and \<open>.\<close> segments, lets a \<open>..\<close>
  segment cancel the segment before it (above the start of a relative path the
  \<open>..\<close> stays, above the root it is dropped), and keeps a leading and a trailing
  slash.
\<close>

fun splitOn :: "char \<Rightarrow> string \<Rightarrow> string list" where
  "splitOn sep [] = [[]]"
| "splitOn sep (c # cs) =
     (if c = sep then [] # splitOn sep cs
      else (case splitOn sep cs of s # ss \<Rightarrow> (c # s) # ss | [] \<Rightarrow> [[c]]))"

fun joinWith :: "string \<Rightarrow> string list \<Rightarrow> string" where
  "joinWith sep [] = []"
| "joinWith sep [s] = s"
| "joinWith sep (s # t # ss) = s @ sep @ joinWith sep (t # ss)"

text \<open>One segment of \<open>normalizeString\<close>; \<open>acc\<close> holds the kept segments, last first.\<close>

definition normalizeStep :: "bool \<Rightarrow> string \<Rightarrow> string list \<Rightarrow> string list" where
  "normalizeStep allowAboveRoot seg acc =
     (if seg = [] \<or> seg = ''.'' then acc
      else if seg = ''..'' then
        (case acc of
           [] \<Rightarrow> (if allowAboveRoot then [''..''] else [])
         | s # rest \<Rightarrow>
             (if s = ''..'' then (if allowAboveRoot then ''..'' # acc else acc) else rest))
      else seg # acc)"

definition normalize :: "string \<Rightarrow> string" where
  "normalize path =
     (if path = [] then ''.''
      else
        (let isAbsolute = (hd path = CHR ''/'');
             trailingSeparator = (last path = CHR ''/'');
             body = joinWith ''/''
                      (rev (fold (normalizeStep (\<not> isAbsolute)) (splitOn CHR ''/'' path) []))
         in if body = [] then
              (if isAbsolute then ''/'' else if trailingSeparator then ''./'' else ''.'')
            else (if isAbsolute then ''/'' else [])
                 @ body @ (if trailingSeparator then ''/'' else [])))"

definition pathJoin :: "string \<Rightarrow> string \<Rightarrow> string" where
  "pathJoin dir file =
     (if dir = [] \<and> file = [] then ''.''
      else normalize (if dir = [] then file else if file = [] then dir
                      else dir @ ''/'' @ file))"

text \<open>
  \<open>sanitizeFilename\<close>: drop every character outside \<open>[a-zA-Z0-9\s-_]\<close>, turn each
  run of whitespace into one underscore, keep the first 50 characters. A title is a
  string of code units below 256 here (a \<open>char\<close> is one of them); among these
  \<open>\s\<close> matches tab, line feed, vertical tab, form feed, carriage return (9 to 13),
  space (32) and the no-break space (160). The blanks of JavaScript from U+1680 on
  lie outside this type.
\<close>

definition isSpace :: "char \<Rightarrow> bool" where
  "isSpace c =
     (let n = (of_char c :: nat) in n = 32 \<or> (9 \<le> n \<and> n \<le> 13) \<or> n = 160)"

definition isAllowed :: "char \<Rightarrow> bool" where
  "isAllowed c =
     (let n = (of_char c :: nat)
      in (97 \<le> n \<and> n \<le> 122) \<or> (65 \<le> n \<and> n \<le> 90) \<or> (48 \<le> n \<and> n \<le> 57)
         \<or> isSpace c \<or> c = CHR ''-'' \<or> c = CHR ''_'')"

function collapseSpaces :: "string \<Rightarrow> string" where
  "collapseSpaces [] = []"
| "collapseSpaces (c # cs) =
     (if isSpace c then CHR ''_'' # collapseSpaces (dropWhile isSpace cs)
      else c # collapseSpaces cs)"
  by pat_completeness auto
termination
  by (relation "measure length") (auto simp: less_Suc_eq_le length_dropWhile_le)

definition sanitizeFilename :: "string \<Rightarrow> string" where
  "sanitizeFilename filename = take 50 (collapseSpaces (filter isAllowed filename))"

text \<open>
  What the external encoder does with one crop command: it ends and the output file
  has the given size (\<open>None\<close>: \<open>stat\<close> of the output fails), it reports an
  error, or building the command throws.
\<close>

datatype ffmpeg_outcome = FfmpegEnd "nat option" | FfmpegError string | FfmpegThrows

datatype crop_error = StatFailed | CroppingFailed string | StartFailed

record CropResult =
  res_outputPath :: string
  res_fileSize :: nat
  res_duration :: int
  res_format :: string

text \<open>The environment of one \<open>cropVideo\<close> call: \<open>Date.now()\<close> and the encoder.\<close>

record crop_env =
  crop_now :: nat
  crop_ffmpeg :: ffmpeg_outcome

datatype crop_event =
    CropRun FfmpegCommand
  | CropSettled string bool

record crop_world =
  crop_files :: "string set"
  crop_trace :: "crop_event list"

definition cropOutputPath ::
  "string \<Rightarrow> nat \<Rightarrow> Highlight \<Rightarrow> string \<Rightarrow> CropOptions \<Rightarrow> string" where
  "cropOutputPath outputDir timestamp highlight videoId opts =
     pathJoin outputDir
       (videoId @ ''_'' @ h_id highlight @ ''_'' @ sanitizeFilename (h_title highlight)
        @ ''_'' @ showNat timestamp @ ''.'' @ formatName (the_outputFormat opts))"

text \<open>
  \<open>cropVideo\<close>: the promise resolves with the \<open>CropResult\<close> on \<open>'end'\<close> and
  rejects on \<open>'error'\<close> after \<open>cleanupFile(outputPath)\<close>. The trace records the
  command handed to \<open>run()\<close> and the moment the promise settles.
\<close>

definition cropVideo ::
  "string \<Rightarrow> crop_env \<Rightarrow> string \<Rightarrow> Highlight \<Rightarrow> string \<Rightarrow> CropOptions \<Rightarrow> crop_world
     \<Rightarrow> (crop_error + CropResult) \<times> crop_world" where
  "cropVideo outputDir env inputPath highlight videoId opts w =
     (let outputPath = cropOutputPath outputDir (crop_now env) highlight videoId opts;
          command = cropCommand inputPath highlight outputPath opts
      in case crop_ffmpeg env of
           FfmpegThrows \<Rightarrow>
             (Inl StartFailed,
              w\<lparr>crop_trace := crop_trace w @ [CropSettled outputPath False]\<rparr>)
         | FfmpegError msg \<Rightarrow>
             (Inl (CroppingFailed msg),
              w\<lparr>crop_files := crop_files w - {outputPath},
                crop_trace := crop_trace w @ [CropRun command, CropSettled outputPath False]\<rparr>)
         | FfmpegEnd None \<Rightarrow>
             (Inl StatFailed,
              w\<lparr>crop_trace := crop_trace w @ [CropRun command, CropSettled outputPath False]\<rparr>)
         | FfmpegEnd (Some sz) \<Rightarrow>
             (Inr \<lparr>res_outputPath = outputPath, res_fileSize = sz,
                   res_duration = endSeconds highlight - startSeconds highlight,
                   res_format = formatName (the_outputFormat opts)\<rparr>,
              w\<lparr>crop_files := insert outputPath (crop_files w),
                crop_trace := crop_trace w @ [CropRun command, CropSettled outputPath True]\<rparr>))"

text \<open>
  \<open>cropMultipleHighlights\<close>: the \<open>for ... of\<close> loop with its \<open>try\<close>/\<open>catch\<close>
  around the awaited \<open>cropVideo\<close>. The \<open>i\<close>-th call (from 0) runs in the
  environment \<open>envs i\<close>.
\<close>

fun cropLoop ::
  "string \<Rightarrow> (nat \<Rightarrow> crop_env) \<Rightarrow> string \<Rightarrow> string \<Rightarrow> CropOptions \<Rightarrow> nat \<Rightarrow> Highlight list
     \<Rightarrow> CropResult list \<Rightarrow> crop_world \<Rightarrow> CropResult list \<times> crop_world" where
  "cropLoop outputDir envs inputPath videoId opts i [] results w = (results, w)"
| "cropLoop outputDir envs inputPath videoId opts i (highlight # rest) results w =
     (case cropVideo outputDir (envs i) inputPath highlight videoId opts w of
        (Inr result, w') \<Rightarrow>
          cropLoop outputDir envs inputPath videoId opts (Suc i) rest (results @ [result]) w'
      | (Inl error, w') \<Rightarrow>
          cropLoop outputDir envs inputPath videoId opts (Suc i) rest results w')"

definition cropMultipleHighlights ::
  "string \<Rightarrow> (nat \<Rightarrow> crop_env) \<Rightarrow> string \<Rightarrow> Highlight list \<Rightarrow> string \<Rightarrow> CropOptions
     \<Rightarrow> crop_world \<Rightarrow> CropResult list \<times> crop_world" where
  "cropMultipleHighlights outputDir envs inputPath highlights videoId opts w =
     cropLoop outputDir envs inputPath videoId opts 0 highlights [] w"

section \<open>Acquisition: the format catalog and the separate-stream selection\<close>

text \<open>
  One entry of \<open>info.formats\<close> as ytdl-core reports it, with the fields the service
  reads. \<open>height\<close> is absent on audio formats. \<open>audioBitrate\<close> is the number
  ytdl-core reports; the selection reads it on audio-only formats alone.
\<close>

record videoFormat =
  itag :: nat
  container :: string
  hasVideo :: bool
  hasAudio :: bool
  height :: "nat option"
  audioBitrate :: nat

datatype formatFilter = VideoAndAudio | VideoOnly | AudioOnly

text \<open>
  \<open>ytdl.filterFormats\<close> of the ytdl-core library for the three filters the
  service names: a format passes when it has, or lacks, the video and audio track.
\<close>

definition filterFormats :: "videoFormat list \<Rightarrow> formatFilter \<Rightarrow> videoFormat list" where
  "filterFormats formats flt =
     (case flt of
        VideoAndAudio \<Rightarrow> filter (\<lambda>f. hasVideo f \<and> hasAudio f) formats
      | VideoOnly \<Rightarrow> filter (\<lambda>f. hasVideo f \<and> \<not> hasAudio f) formats
      | AudioOnly \<Rightarrow> filter (\<lambda>f. \<not> hasVideo f \<and> hasAudio f) formats)"

text \<open>\<open>f.height\<close> as a condition: present and not zero.\<close>

definition hasHeight :: "videoFormat \<Rightarrow> bool" where
  "hasHeight f = (case height f of None \<Rightarrow> False | Some h \<Rightarrow> h \<noteq> 0)"

text \<open>The height read by the comparators; they only see formats that have one.\<close>

definition heightOf :: "videoFormat \<Rightarrow> nat" where
  "heightOf f = (case height f of None \<Rightarrow> 0 | Some h \<Rightarrow> h)"

text \<open>
  \<open>xs.sort((a, b) => key(b) - key(a))\<close>: the stable sort of JavaScript, greatest
  key first, equal keys in their order in \<open>xs\<close>.
\<close>

definition sortDescending :: "('a \<Rightarrow> nat) \<Rightarrow> 'a list \<Rightarrow> 'a list" where
  "sortDescending key xs = sort_key (\<lambda>x. - int (key x)) xs"

text \<open>\<open>xs[0] || ys[0]\<close> on arrays of objects.\<close>

definition firstOr :: "'a list \<Rightarrow> 'a list \<Rightarrow> 'a option" where
  "firstOr xs ys =
     (case xs of x # _ \<Rightarrow> Some x | [] \<Rightarrow> (case ys of y # _ \<Rightarrow> Some y | [] \<Rightarrow> None))"

definition highResVideoFormats :: "videoFormat list \<Rightarrow> videoFormat list" where
  "highResVideoFormats formats =
     filter (\<lambda>f. hasHeight f \<and> 720 \<le> heightOf f) (filterFormats formats VideoOnly)"

definition mp4VideoFormats :: "videoFormat list \<Rightarrow> videoFormat list" where
  "mp4VideoFormats formats =
     filter (\<lambda>f. container f = ''mp4'' \<and> hasHeight f) (filterFormats formats VideoOnly)"

definition bestVideoFormat :: "videoFormat list \<Rightarrow> videoFormat option" where
  "bestVideoFormat formats =
     firstOr (sortDescending heightOf (mp4VideoFormats formats))
             (filterFormats formats VideoOnly)"

definition preferredAudioFormats :: "videoFormat list \<Rightarrow> videoFormat list" where
  "preferredAudioFormats formats =
     filter (\<lambda>f. container f = ''webm'' \<or> container f = ''m4a'')
       (filterFormats formats AudioOnly)"

definition bestAudioFormat :: "videoFormat list \<Rightarrow> videoFormat option" where
  "bestAudioFormat formats =
     firstOr (sortDescending audioBitrate (preferredAudioFormats formats))
             (filterFormats formats AudioOnly)"

section \<open>Acquisition: downloads, merge and retry\<close>

datatype ytdl_quality = Highest | Lowest | HighestVideo | LowestVideo

text \<open>\<open>VideoDownloadOptions\<close>; \<open>dl_onProgress\<close> says whether a callback is given.\<close>

record VideoDownloadOptions =
  dl_quality :: "ytdl_quality option"
  dl_format :: "outputFormat option"
  dl_onProgress :: bool

definition the_dl_quality :: "VideoDownloadOptions \<Rightarrow> ytdl_quality" where
  "the_dl_quality options = (case dl_quality options of None \<Rightarrow> Highest | Some q \<Rightarrow> q)"

definition the_dl_format :: "VideoDownloadOptions \<Rightarrow> outputFormat" where
  "the_dl_format options = (case dl_format options of None \<Rightarrow> Mp4 | Some f \<Rightarrow> f)"

text \<open>
  The options object passed to \<open>ytdl(videoUrl, ...)\<close> for a combined download;
  \<open>so_requestOptions\<close> says whether the request headers are part of it.
\<close>

record streamOptions =
  so_quality :: ytdl_quality
  so_filter :: formatFilter
  so_requestOptions :: bool

text \<open>
  One \<open>'progress'\<close> event of the download stream: the value of \<open>Date.now()\<close> in
  the handler (milliseconds) and the two byte counts.
\<close>

record progress_chunk =
  chunk_now :: nat
  downloadedBytes :: nat
  totalBytes :: nat

text \<open>
  How a stream download ends, and how the merge process ends. \<open>createWriteStream\<close>
  opens its file asynchronously. With \<open>Finish\<close>, \<open>StreamError\<close>,
  \<open>WriteError\<close> and \<open>Timeout\<close> the file has been created when the handler
  runs. With \<open>EarlyError\<close> the stream emits \<open>'error'\<close> while the open is still
  pending: the handler runs with no file at the path, and the open creates the file
  afterwards.
\<close>

datatype stream_outcome =
  Finish | StreamError string | WriteError string | Timeout | EarlyError string

datatype merge_outcome = MergeClose nat | MergeSpawnError string | MergeTimeout

datatype download_error =
    InfoError string
  | NoSuitableFormats
  | DownloadFailed string
  | FileWriteFailed string
  | DownloadTimeout
  | NoVideoOnlyFormat
  | NoAudioOnlyFormat
  | StreamFailure string
  | StreamTimeout
  | MergeSpawnFailed string
  | MergeFailed nat
  | MergeTimedOut
  | AllRetriesFailed

text \<open>
  What the service asks of the outside world, in the order it asks:
  the start of an attempt, a combined download \<open>ytdl(videoUrl, streamOptions)\<close>
  piped to a path, a single-stream download \<open>ytdl(videoUrl, {filter: itag})\<close>
  piped to a path, the moment such a download settles (finished or failed),
  the progress callback, the progress log line, the merge process and its end,
  and the backoff delay in milliseconds.
\<close>

datatype event =
    Attempt nat
  | YtdlStream string streamOptions
  | YtdlItag string nat
  | StreamSettled string bool
  | OnProgress progress_chunk
  | LogProgress progress_chunk
  | FfmpegSpawn "string list"
  | FfmpegSettled bool
  | Delay nat

text \<open>
  The temporary directory (the paths that exist) and the trace of requests. The world
  an operation returns is the directory once the opens that the operation started
  have completed.
\<close>

record world =
  files :: "string set"
  trace :: "event list"

definition emit :: "event list \<Rightarrow> world \<Rightarrow> world" where
  "emit es w = w\<lparr>trace := trace w @ es\<rparr>"

text \<open>The open of \<open>fs.createWriteStream(path)\<close> completes: the file exists.\<close>

definition createFile :: "string \<Rightarrow> world \<Rightarrow> world" where
  "createFile p w = w\<lparr>files := insert p (files w)\<rparr>"

text \<open>\<open>cleanupFile\<close>: \<open>unlinkSync\<close> when the path exists.\<close>

definition cleanupFile :: "string \<Rightarrow> world \<Rightarrow> world" where
  "cleanupFile p w = (if p \<in> files w then w\<lparr>files := files w - {p}\<rparr> else w)"

text \<open>
  Whether the write stream had created its file when the handler of the outcome ran,
  the path whose open is still pending otherwise, and the completion of pending
  opens.
\<close>

definition opened :: "stream_outcome \<Rightarrow> bool" where
  "opened outcome = (case outcome of EarlyError msg \<Rightarrow> False | _ \<Rightarrow> True)"

definition pendingOpen :: "stream_outcome \<Rightarrow> string \<Rightarrow> string set" where
  "pendingOpen outcome p = (if opened outcome then {} else {p})"

definition completeOpens :: "string set \<Rightarrow> world \<Rightarrow> world" where
  "completeOpens ps w = w\<lparr>files := files w \<union> ps\<rparr>"

text \<open>
  The environment of one attempt: the result of \<open>ytdl.getInfo\<close> (an error message
  or \<open>info.formats\<close>), for a combined download the clock at its start, its
  progress events and its end, for the separate path the two values of
  \<open>Date.now()\<close> in the temporary names, the ends of the two stream downloads and
  of the merge.
\<close>

record attempt_env =
  env_info :: "string + videoFormat list"
  env_streamStart :: nat
  env_chunks :: "progress_chunk list"
  env_stream :: stream_outcome
  env_videoNow :: nat
  env_audioNow :: nat
  env_video :: stream_outcome
  env_audio :: stream_outcome
  env_merge :: merge_outcome

text \<open>
  \<open>percentage >= 100\<close> for \<open>percentage = (downloaded / totalBytes) * 100\<close> on
  byte counts: the quotient is at least 1 exactly when \<open>downloaded\<close> reaches
  \<open>totalBytes\<close>; with \<open>totalBytes = 0\<close> it is \<open>Infinity\<close> for a positive
  count and \<open>NaN\<close> (every comparison false) for zero.
\<close>

definition at100 :: "progress_chunk \<Rightarrow> bool" where
  "at100 c = (if totalBytes c = 0 then 0 < downloadedBytes c
              else totalBytes c \<le> downloadedBytes c)"

text \<open>\<open>timeSinceLastUpdate >= 2 || percentage >= 100\<close>, in milliseconds.\<close>

definition logDue :: "nat \<Rightarrow> progress_chunk \<Rightarrow> bool" where
  "logDue lastUpdate c = (2000 \<le> int (chunk_now c) - int lastUpdate \<or> at100 c)"

text \<open>
  The \<open>'progress'\<close> handler run over the events of one stream: the callback when
  one is given, then the log line when due, which also moves \<open>lastUpdate\<close>.
\<close>

fun progressEvents :: "bool \<Rightarrow> nat \<Rightarrow> progress_chunk list \<Rightarrow> event list" where
  "progressEvents cb lastUpdate [] = []"
| "progressEvents cb lastUpdate (c # cs) =
     (if cb then [OnProgress c] else [])
     @ (if logDue lastUpdate c then [LogProgress c] else [])
     @ progressEvents cb (if logDue lastUpdate c then chunk_now c else lastUpdate) cs"

text \<open>
  The combined download of \<open>downloadVideo\<close>: the stream piped to \<open>filePath\<close>,
  its handlers for \<open>'error'\<close>, \<open>'finish'\<close> and the 15 minute timeout. On an
  early error \<open>cleanupFile\<close> finds no file (\<open>existsSync\<close>), the promise
  rejects, and the pending open creates the file.
\<close>

definition downloadCombined ::
  "VideoDownloadOptions \<Rightarrow> string \<Rightarrow> streamOptions \<Rightarrow> attempt_env \<Rightarrow> world
     \<Rightarrow> (download_error + string) \<times> world" where
  "downloadCombined options filePath streamOpts env w =
     (let requested = YtdlStream filePath streamOpts
                      # progressEvents (dl_onProgress options) (env_streamStart env)
                          (env_chunks env);
          w0 = emit requested w;
          w1 = emit requested (createFile filePath w)
      in case env_stream env of
           Finish \<Rightarrow> (Inr filePath, emit [StreamSettled filePath True] w1)
         | StreamError msg \<Rightarrow>
             (Inl (DownloadFailed msg),
              emit [StreamSettled filePath False] (cleanupFile filePath w1))
         | WriteError msg \<Rightarrow>
             (Inl (FileWriteFailed msg),
              emit [StreamSettled filePath False] (cleanupFile filePath w1))
         | Timeout \<Rightarrow>
             (Inl DownloadTimeout,
              emit [StreamSettled filePath False] (cleanupFile filePath w1))
         | EarlyError msg \<Rightarrow>
             (Inl (DownloadFailed msg),
              completeOpens {filePath}
                (emit [StreamSettled filePath False] (cleanupFile filePath w0))))"

text \<open>
  \<open>downloadStream\<close>: one stream to one file, 10 minute timeout. On an early error
  \<open>cleanupFile\<close> finds no file and the promise rejects with the open still
  pending; the caller accounts for it (\<open>pendingOpens\<close>).
\<close>

definition downloadStream ::
  "stream_outcome \<Rightarrow> string \<Rightarrow> nat \<Rightarrow> world \<Rightarrow> (download_error + unit) \<times> world" where
  "downloadStream outcome outputPath tag w =
     (let w0 = emit [YtdlItag outputPath tag] w;
          w1 = emit [YtdlItag outputPath tag] (createFile outputPath w)
      in case outcome of
           Finish \<Rightarrow> (Inr (), emit [StreamSettled outputPath True] w1)
         | StreamError msg \<Rightarrow>
             (Inl (StreamFailure msg),
              emit [StreamSettled outputPath False] (cleanupFile outputPath w1))
         | WriteError msg \<Rightarrow>
             (Inl (StreamFailure msg),
              emit [StreamSettled outputPath False] (cleanupFile outputPath w1))
         | Timeout \<Rightarrow>
             (Inl StreamTimeout,
              emit [StreamSettled outputPath False] (cleanupFile outputPath w1))
         | EarlyError msg \<Rightarrow>
             (Inl (StreamFailure msg),
              emit [StreamSettled outputPath False] (cleanupFile outputPath w0)))"

text \<open>
  \<open>mergeStreamsWithFFmpeg\<close>: exit code 0 resolves (the output file is written);
  any other code, a spawn error and the 15 minute timeout reject. What a failed
  process leaves at the output path is not tracked.
\<close>

definition ffmpegArgs :: "string \<Rightarrow> string \<Rightarrow> string \<Rightarrow> string list" where
  "ffmpegArgs videoPath audioPath outputPath =
     [''-i'', videoPath, ''-i'', audioPath, ''-c:v'', ''copy'', ''-c:a'', ''aac'',
      ''-strict'', ''experimental'', ''-shortest'', ''-y'', outputPath]"

definition mergeStreamsWithFFmpeg ::
  "merge_outcome \<Rightarrow> string \<Rightarrow> string \<Rightarrow> string \<Rightarrow> world \<Rightarrow> (download_error + unit) \<times> world" where
  "mergeStreamsWithFFmpeg outcome videoPath audioPath outputPath w =
     (let w1 = emit [FfmpegSpawn (ffmpegArgs videoPath audioPath outputPath)] w
      in case outcome of
           MergeClose code \<Rightarrow>
             (if code = 0 then (Inr (), emit [FfmpegSettled True] (createFile outputPath w1))
              else (Inl (MergeFailed code), emit [FfmpegSettled False] w1))
         | MergeSpawnError msg \<Rightarrow> (Inl (MergeSpawnFailed msg), emit [FfmpegSettled False] w1)
         | MergeTimeout \<Rightarrow> (Inl MergeTimedOut, emit [FfmpegSettled False] w1))"

definition tempVideoName :: "string \<Rightarrow> nat \<Rightarrow> string" where
  "tempVideoName videoId now = videoId @ ''_video_'' @ showNat now @ ''.mp4''"

definition tempAudioName :: "string \<Rightarrow> nat \<Rightarrow> string" where
  "tempAudioName videoId now = videoId @ ''_audio_'' @ showNat now @ ''.webm''"

text \<open>The \<open>try\<close> block of \<open>downloadAndMergeStreams\<close>: each \<open>await\<close> in turn.\<close>

definition separateStreams ::
  "attempt_env \<Rightarrow> string \<Rightarrow> string \<Rightarrow> videoFormat list \<Rightarrow> string \<Rightarrow> world
     \<Rightarrow> (download_error + string) \<times> world" where
  "separateStreams env tempVideoPath tempAudioPath formats outputPath w =
     (case bestVideoFormat formats of
        None \<Rightarrow> (Inl NoVideoOnlyFormat, w)
      | Some bestVideo \<Rightarrow>
     (case bestAudioFormat formats of
        None \<Rightarrow> (Inl NoAudioOnlyFormat, w)
      | Some bestAudio \<Rightarrow>
     (case downloadStream (env_video env) tempVideoPath (itag bestVideo) w of
        (Inl e, w1) \<Rightarrow> (Inl e, w1)
      | (Inr _, w1) \<Rightarrow>
     (case downloadStream (env_audio env) tempAudioPath (itag bestAudio) w1 of
        (Inl e, w2) \<Rightarrow> (Inl e, w2)
      | (Inr _, w2) \<Rightarrow>
     (case mergeStreamsWithFFmpeg (env_merge env) tempVideoPath tempAudioPath outputPath w2 of
        (Inl e, w3) \<Rightarrow> (Inl e, w3)
      | (Inr _, w3) \<Rightarrow> (Inr outputPath, w3))))))"

text \<open>
  The opens still pending when the \<open>try\<close> block is left: that of the stream
  download that failed early, if one did.
\<close>

definition pendingOpens ::
  "attempt_env \<Rightarrow> string \<Rightarrow> string \<Rightarrow> videoFormat list \<Rightarrow> string set" where
  "pendingOpens env tempVideoPath tempAudioPath formats =
     (case bestVideoFormat formats of
        None \<Rightarrow> {}
      | Some bestVideo \<Rightarrow>
     (case bestAudioFormat formats of
        None \<Rightarrow> {}
      | Some bestAudio \<Rightarrow>
          (if env_video env = Finish then pendingOpen (env_audio env) tempAudioPath
           else pendingOpen (env_video env) tempVideoPath)))"

text \<open>
  \<open>downloadAndMergeStreams\<close>: the \<open>try\<close> block, then the \<open>finally\<close> with its
  two \<open>cleanupFile\<close> calls; a pending open completes after them.
\<close>

definition downloadAndMergeStreams ::
  "string \<Rightarrow> attempt_env \<Rightarrow> string \<Rightarrow> videoFormat list \<Rightarrow> string \<Rightarrow> world
     \<Rightarrow> (download_error + string) \<times> world" where
  "downloadAndMergeStreams tempDir env videoId formats outputPath w =
     (let tempVideoPath = pathJoin tempDir (tempVideoName videoId (env_videoNow env));
          tempAudioPath = pathJoin tempDir (tempAudioName videoId (env_audioNow env));
          (r, w1) = separateStreams env tempVideoPath tempAudioPath formats outputPath w
      in (r, completeOpens (pendingOpens env tempVideoPath tempAudioPath formats)
               (cleanupFile tempAudioPath (cleanupFile tempVideoPath w1))))"

text \<open>
  One pass through the body of the retry loop of \<open>downloadVideo\<close>, for the attempt
  number \<open>attempt\<close>: the catalog check, the stream options, the separate-stream
  branch for \<open>'highest'\<close>, the fallback options of a retry, the combined download.
\<close>

definition fallbackOptions :: streamOptions where
  "fallbackOptions = \<lparr>so_quality = Lowest, so_filter = VideoAndAudio, so_requestOptions = False\<rparr>"

definition downloadAttempt ::
  "string \<Rightarrow> string \<Rightarrow> VideoDownloadOptions \<Rightarrow> string \<Rightarrow> nat \<Rightarrow> attempt_env \<Rightarrow> world
     \<Rightarrow> (download_error + string) \<times> world" where
  "downloadAttempt tempDir videoId options filePath attempt env w =
     (case env_info env of
        Inl msg \<Rightarrow> (Inl (InfoError msg), w)
      | Inr formats \<Rightarrow>
          (let combined = filterFormats formats VideoAndAudio
           in if combined = [] \<and> filterFormats formats VideoOnly = []
              then (Inl NoSuitableFormats, w)
              else
                (let streamOpts =
                       \<lparr>so_quality = the_dl_quality options,
                        so_filter = (if combined \<noteq> [] then VideoAndAudio else VideoOnly),
                        so_requestOptions = True\<rparr>
                 in if the_dl_quality options = Highest \<and> highResVideoFormats formats \<noteq> []
                    then downloadAndMergeStreams tempDir env videoId formats filePath w
                    else downloadCombined options filePath
                           (if 1 < attempt then fallbackOptions else streamOpts) env w)))"

text \<open>
  The retry loop: \<open>for (let attempt = 1; attempt <= maxRetries; attempt++)\<close> with
  its \<open>catch\<close>, the backoff of \<open>2 ^ attempt\<close> seconds between attempts, and the
  final \<open>throw lastError || new Error(...)\<close>. Attempt \<open>n\<close> runs in \<open>envs n\<close>.
\<close>

function retryLoop ::
  "string \<Rightarrow> string \<Rightarrow> VideoDownloadOptions \<Rightarrow> string \<Rightarrow> nat \<Rightarrow> (nat \<Rightarrow> attempt_env)
     \<Rightarrow> nat \<Rightarrow> download_error option \<Rightarrow> world \<Rightarrow> (download_error + string) \<times> world" where
  "retryLoop tempDir videoId options filePath maxRetries envs attempt lastError w =
     (if attempt \<le> maxRetries then
        (case downloadAttempt tempDir videoId options filePath attempt (envs attempt)
                (emit [Attempt attempt] w) of
           (Inr p, w') \<Rightarrow> (Inr p, w')
         | (Inl e, w') \<Rightarrow>
             retryLoop tempDir videoId options filePath maxRetries envs (Suc attempt) (Some e)
               (if attempt < maxRetries then emit [Delay (2 ^ attempt * 1000)] w' else w'))
      else
        (Inl (case lastError of Some e \<Rightarrow> e | None \<Rightarrow> AllRetriesFailed), w))"
  by pat_completeness auto
termination
  by (relation "measure (\<lambda>(tempDir, videoId, options, filePath, maxRetries, envs, attempt,
        lastError, w). Suc maxRetries - attempt)") auto

declare retryLoop.simps [simp del]

text \<open>
  \<open>downloadVideo\<close>; \<open>now\<close> is the \<open>Date.now()\<close> of the file name, taken once
  before the loop.
\<close>

definition downloadVideo ::
  "string \<Rightarrow> nat \<Rightarrow> string \<Rightarrow> VideoDownloadOptions \<Rightarrow> nat \<Rightarrow> (nat \<Rightarrow> attempt_env) \<Rightarrow> world
     \<Rightarrow> (download_error + string) \<times> world" where
  "downloadVideo tempDir now videoId options maxRetries envs w =
     (let fileName = videoId @ ''_'' @ showNat now @ ''.'' @ formatName (the_dl_format options);
          filePath = pathJoin tempDir fileName
      in retryLoop tempDir videoId options filePath maxRetries envs 1 None w)"

section \<open>The source cache lookup\<close>

text \<open>
  The temporary directory as \<open>readdirSync\<close> lists it: file names in listing order,
  each with its modification time in milliseconds.
\<close>

type_synonym directory = "(string \<times> nat) list"

definition maxFileAge :: int where
  "maxFileAge = 1000 * 60 * 60 * 2"

definition startsWith :: "string \<Rightarrow> string \<Rightarrow> bool" where
  "startsWith file p = prefix p file"

text \<open>
  \<open>hasVideoFile\<close>: the first listed file whose name starts with \<open>videoId\<close>; its
  path when it is younger than \<open>maxFileAge\<close>, else it is removed and the
  lookup answers \<open>null\<close>.
\<close>

definition hasVideoFile ::
  "string \<Rightarrow> nat \<Rightarrow> directory \<Rightarrow> string \<Rightarrow> string option \<times> directory" where
  "hasVideoFile tempDir now dir videoId =
     (case find (\<lambda>(file, mtime). startsWith file videoId) dir of
        None \<Rightarrow> (None, dir)
      | Some (videoFile, mtime) \<Rightarrow>
          (if int now - int mtime < maxFileAge
           then (Some (pathJoin tempDir videoFile), dir)
           else (None, filter (\<lambda>(file, mtime). file \<noteq> videoFile) dir)))"

section \<open>Observations on runs\<close>

text \<open>
  The result and the events of one \<open>cropVideo\<close> call, read off a run that starts
  with no files and an empty trace.
\<close>

definition emptyCropWorld :: crop_world where
  "emptyCropWorld = \<lparr>crop_files = {}, crop_trace = []\<rparr>"

definition cropOutcome ::
  "string \<Rightarrow> crop_env \<Rightarrow> string \<Rightarrow> Highlight \<Rightarrow> string \<Rightarrow> CropOptions
     \<Rightarrow> crop_error + CropResult" where
  "cropOutcome outputDir env inputPath highlight videoId opts =
     fst (cropVideo outputDir env inputPath highlight videoId opts emptyCropWorld)"

definition cropEvents ::
  "string \<Rightarrow> crop_env \<Rightarrow> string \<Rightarrow> Highlight \<Rightarrow> string \<Rightarrow> CropOptions \<Rightarrow> crop_event list" where
  "cropEvents outputDir env inputPath highlight videoId opts =
     crop_trace (snd (cropVideo outputDir env inputPath highlight videoId opts emptyCropWorld))"

definition emptyWorld :: world where
  "emptyWorld = \<lparr>files = {}, trace = []\<rparr>"

text \<open>The chunks handed to the progress callback, and the chunks logged, in a trace.\<close>

fun reported :: "event list \<Rightarrow> progress_chunk list" where
  "reported [] = []"
| "reported (OnProgress c # es) = c # reported es"
| "reported (e # es) = reported es"

fun logged :: "event list \<Rightarrow> progress_chunk list" where
  "logged [] = []"
| "logged (LogProgress c # es) = c # logged es"
| "logged (e # es) = logged es"

text \<open>
  The emission rule in the words of the specification: every emitted chunk comes at
  least 2 seconds after the previous emission (\<open>lastTime\<close> at first), or is the
  100\% event.
\<close>

fun spaced :: "nat \<Rightarrow> progress_chunk list \<Rightarrow> bool" where
  "spaced lastTime [] = True"
| "spaced lastTime (c # cs) =
     ((2000 \<le> int (chunk_now c) - int lastTime \<or> at100 c) \<and> spaced (chunk_now c) cs)"

section \<open>Example inputs\<close>

text \<open>
  A catalog as YouTube serves it: a 360p combined format, a 2160p video-only format
  in WebM, a 1080p video-only format in MP4, a 256 kbps audio-only format that
  ytdl-core reports with container \<open>mp4\<close>, and a 160 kbps audio-only format in WebM.
\<close>

definition exCatalog :: "videoFormat list" where
  "exCatalog =
     [\<lparr>itag = 18, container = ''mp4'', hasVideo = True, hasAudio = True,
       height = Some 360, audioBitrate = 96\<rparr>,
      \<lparr>itag = 313, container = ''webm'', hasVideo = True, hasAudio = False,
       height = Some 2160, audioBitrate = 0\<rparr>,
      \<lparr>itag = 137, container = ''mp4'', hasVideo = True, hasAudio = False,
       height = Some 1080, audioBitrate = 0\<rparr>,
      \<lparr>itag = 141, container = ''mp4'', hasVideo = False, hasAudio = True,
       height = None, audioBitrate = 256\<rparr>,
      \<lparr>itag = 251, container = ''webm'', hasVideo = False, hasAudio = True,
       height = None, audioBitrate = 160\<rparr>]"

text \<open>
  A catalog whose audio-only formats are all in WebM: a 360p combined format, a 2160p
  video-only format in WebM, a 1080p video-only format in MP4, audio-only formats of
  70 and of 160 kbps.
\<close>

definition webmAudioCatalog :: "videoFormat list" where
  "webmAudioCatalog =
     [\<lparr>itag = 18, container = ''mp4'', hasVideo = True, hasAudio = True,
       height = Some 360, audioBitrate = 96\<rparr>,
      \<lparr>itag = 313, container = ''webm'', hasVideo = True, hasAudio = False,
       height = Some 2160, audioBitrate = 0\<rparr>,
      \<lparr>itag = 137, container = ''mp4'', hasVideo = True, hasAudio = False,
       height = Some 1080, audioBitrate = 0\<rparr>,
      \<lparr>itag = 250, container = ''webm'', hasVideo = False, hasAudio = True,
       height = None, audioBitrate = 70\<rparr>,
      \<lparr>itag = 251, container = ''webm'', hasVideo = False, hasAudio = True,
       height = None, audioBitrate = 160\<rparr>]"

text \<open>A catalog with one 480p video-only format and nothing else.\<close>

definition videoOnlyCatalog :: "videoFormat list" where
  "videoOnlyCatalog =
     [\<lparr>itag = 135, container = ''mp4'', hasVideo = True, hasAudio = False,
       height = Some 480, audioBitrate = 0\<rparr>]"

text \<open>A catalog with an audio-only format and nothing else.\<close>

definition audioOnlyCatalog :: "videoFormat list" where
  "audioOnlyCatalog =
     [\<lparr>itag = 251, container = ''webm'', hasVideo = False, hasAudio = True,
       height = None, audioBitrate = 160\<rparr>]"

text \<open>
  An attempt on \<open>exCatalog\<close> in which everything succeeds except, possibly, the
  video stream download.
\<close>

definition exEnv :: "stream_outcome \<Rightarrow> attempt_env" where
  "exEnv videoOutcome =
     \<lparr>env_info = Inr exCatalog, env_streamStart = 0, env_chunks = [], env_stream = Finish,
      env_videoNow = 5, env_audioNow = 6, env_video = videoOutcome, env_audio = Finish,
      env_merge = MergeClose 0\<rparr>"

text \<open>The first attempt loses the video stream, the later ones succeed; the clock moves
  on between attempts.\<close>

definition exEnvs :: "nat \<Rightarrow> attempt_env" where
  "exEnvs n =
     (exEnv (if n = 1 then StreamError ''reset'' else Finish))
       \<lparr>env_videoNow := 10 * n + 5, env_audioNow := 10 * n + 6\<rparr>"

definition highestOptions :: VideoDownloadOptions where
  "highestOptions = \<lparr>dl_quality = Some Highest, dl_format = Some Mp4, dl_onProgress = False\<rparr>"

definition progressOptions :: VideoDownloadOptions where
  "progressOptions = \<lparr>dl_quality = Some Lowest, dl_format = Some Mp4, dl_onProgress = True\<rparr>"

text \<open>Two progress events 100 ms apart, at 10\% and at 20\%.\<close>

definition exChunks :: "progress_chunk list" where
  "exChunks = [\<lparr>chunk_now = 2500, downloadedBytes = 10, totalBytes = 100\<rparr>,
               \<lparr>chunk_now = 2600, downloadedBytes = 20, totalBytes = 100\<rparr>]"

definition exHighlights :: "Highlight list" where
  "exHighlights =
     [\<lparr>h_id = ''a'', h_title = ''Big  win!'', startSeconds = 30, endSeconds = 45\<rparr>,
      \<lparr>h_id = ''b'', h_title = ''x'', startSeconds = 50, endSeconds = 60\<rparr>,
      \<lparr>h_id = ''c'', h_title = ''y'', startSeconds = 70, endSeconds = 75\<rparr>]"

text \<open>The second crop fails, the others end with an output of 10 and 30 bytes.\<close>

definition exCropEnvs :: "nat \<Rightarrow> crop_env" where
  "exCropEnvs k =
     \<lparr>crop_now = 100 + k,
      crop_ffmpeg = (if k = 1 then FfmpegError ''exit 1'' else FfmpegEnd (Some (10 * (k + 1))))\<rparr>"

section \<open>Properties of the crop command\<close>

lemma setResolution_eq:
  "setResolution q res c =
     (if q = Lossless \<or> res = Original then c else c\<lparr>cmd_size := resolutionMap res\<rparr>)"
  by (cases res) (simp_all add: setResolution_def resolutionMap_def)

lemma extraOptions_fields [simp]:
  "cmd_videoCodec (extraOptions q c) = cmd_videoCodec c"
  "cmd_audioCodec (extraOptions q c) = cmd_audioCodec c"
  "cmd_audioBitrate (extraOptions q c) = cmd_audioBitrate c"
  "cmd_audioFrequency (extraOptions q c) = cmd_audioFrequency c"
  "cmd_videoBitrate (extraOptions q c) = cmd_videoBitrate c"
  "cmd_size (extraOptions q c) = cmd_size c"
  by (simp_all add: extraOptions_def addOptions_def)

lemma setResolution_fields [simp]:
  "cmd_videoCodec (setResolution q res c) = cmd_videoCodec c"
  "cmd_audioCodec (setResolution q res c) = cmd_audioCodec c"
  "cmd_audioBitrate (setResolution q res c) = cmd_audioBitrate c"
  "cmd_audioFrequency (setResolution q res c) = cmd_audioFrequency c"
  "cmd_videoBitrate (setResolution q res c) = cmd_videoBitrate c"
  "cmd_options (setResolution q res c) = cmd_options c"
  "cmd_size (setResolution q res c) =
     (if q = Lossless \<or> res = Original then cmd_size c else resolutionMap res)"
  by (simp_all add: setResolution_eq)

lemma qualitySwitch_size [simp]: "cmd_size (qualitySwitch q res c) = cmd_size c"
  by (cases q) (simp_all add: qualitySwitch_def addOptions_def Let_def)

lemma cropCommand_size:
  "cmd_size (cropCommand inp h out opts) =
     (if the_quality opts = Lossless \<or> the_resolution opts = Original then None
      else resolutionMap (the_resolution opts))"
  by (simp add: cropCommand_def Let_def baseCommand_def)

lemma cropCommand_encoding:
  "(cmd_videoCodec (cropCommand inp h out opts), cmd_videoBitrate (cropCommand inp h out opts),
    cmd_audioCodec (cropCommand inp h out opts), cmd_audioBitrate (cropCommand inp h out opts),
    cmd_audioFrequency (cropCommand inp h out opts)) =
   (case the_quality opts of
      Lossless \<Rightarrow> (Some ''copy'', None, Some ''copy'', None, None)
    | Youtube \<Rightarrow> (Some ''libx264'',
         Some (if the_resolution opts = R1080p then ''8000k''
               else if the_resolution opts = R720p then ''5000k'' else ''3000k''),
         Some ''aac'', Some ''320k'', Some 48000)
    | High \<Rightarrow> (Some ''libx264'', Some ''4000k'', Some ''aac'', Some ''192k'', Some 48000)
    | Medium \<Rightarrow> (Some ''libx264'', Some ''2000k'', Some ''aac'', Some ''128k'', Some 44100)
    | Low \<Rightarrow> (Some ''libx264'', Some ''1000k'', Some ''aac'', Some ''96k'', Some 44100))"
  by (cases "the_quality opts")
     (simp_all add: cropCommand_def Let_def qualitySwitch_def addOptions_def baseCommand_def)

lemma cropCommand_lossless_options:
  "the_quality opts = Lossless \<Longrightarrow>
   cmd_options (cropCommand inp h out opts) =
     [''-avoid_negative_ts make_zero'', ''-movflags +faststart'']"
  by (simp add: cropCommand_def Let_def qualitySwitch_def addOptions_def baseCommand_def
      extraOptions_def)

text \<open>
  C7. For every crop request the codecs, bitrates and audio sample rate of the
  command are those of the tier table: platform-optimized re-encodes with 8000k video
  at 1080p and 5000k at 720p (3000k at any other resolution) and 320k/48kHz audio,
  high with 4000k and 192k/48kHz, medium with 2000k and 128k/44.1kHz, low with 1000k
  and 96k/44.1kHz; and on every re-encode tier the output size is the one of the
  resolution setting unless that setting is \<open>original\<close>. An omitted quality is
  \<open>high\<close>, an omitted resolution \<open>720p\<close>.
\<close>

theorem crop_tier_table:
  "(let c = cropCommand inp h out opts; res = the_resolution opts in
     (cmd_videoCodec c, cmd_videoBitrate c, cmd_audioCodec c, cmd_audioBitrate c,
      cmd_audioFrequency c) =
       (case the_quality opts of
          Youtube \<Rightarrow> (Some ''libx264'',
             Some (if res = R1080p then ''8000k'' else if res = R720p then ''5000k''
                   else ''3000k''),
             Some ''aac'', Some ''320k'', Some 48000)
        | High \<Rightarrow> (Some ''libx264'', Some ''4000k'', Some ''aac'', Some ''192k'', Some 48000)
        | Medium \<Rightarrow> (Some ''libx264'', Some ''2000k'', Some ''aac'', Some ''128k'', Some 44100)
        | Low \<Rightarrow> (Some ''libx264'', Some ''1000k'', Some ''aac'', Some ''96k'', Some 44100)
        | Lossless \<Rightarrow> (Some ''copy'', None, Some ''copy'', None, None))
     \<and> cmd_size c =
         (if the_quality opts = Lossless then None
          else case res of
                 Original \<Rightarrow> None
               | R1080p \<Rightarrow> Some ''1920x1080''
               | R720p \<Rightarrow> Some ''1280x720''
               | R480p \<Rightarrow> Some ''854x480''
               | R360p \<Rightarrow> Some ''640x360''))"
  unfolding Let_def
proof (intro conjI)
  show "(cmd_videoCodec (cropCommand inp h out opts), cmd_videoBitrate (cropCommand inp h out opts),
         cmd_audioCodec (cropCommand inp h out opts), cmd_audioBitrate (cropCommand inp h out opts),
         cmd_audioFrequency (cropCommand inp h out opts)) =
        (case the_quality opts of
           Youtube \<Rightarrow> (Some ''libx264'',
              Some (if the_resolution opts = R1080p then ''8000k''
                    else if the_resolution opts = R720p then ''5000k'' else ''3000k''),
              Some ''aac'', Some ''320k'', Some 48000)
         | High \<Rightarrow> (Some ''libx264'', Some ''4000k'', Some ''aac'', Some ''192k'', Some 48000)
         | Medium \<Rightarrow> (Some ''libx264'', Some ''2000k'', Some ''aac'', Some ''128k'', Some 44100)
         | Low \<Rightarrow> (Some ''libx264'', Some ''1000k'', Some ''aac'', Some ''96k'', Some 44100)
         | Lossless \<Rightarrow> (Some ''copy'', None, Some ''copy'', None, None))"
    unfolding cropCommand_encoding by (cases "the_quality opts") simp_all
next
  show "cmd_size (cropCommand inp h out opts) =
          (if the_quality opts = Lossless then None
           else case the_resolution opts of
                  Original \<Rightarrow> None
                | R1080p \<Rightarrow> Some ''1920x1080''
                | R720p \<Rightarrow> Some ''1280x720''
                | R480p \<Rightarrow> Some ''854x480''
                | R360p \<Rightarrow> Some ''640x360'')"
    unfolding cropCommand_size
    by (cases "the_resolution opts") (simp_all add: resolutionMap_def)
qed

theorem crop_tier_table_witness:
  "(let c = cropCommand ''in.mp4''
              \<lparr>h_id = ''h1'', h_title = ''t'', startSeconds = 30, endSeconds = 45\<rparr> ''out.mp4''
              \<lparr>opt_outputFormat = None, opt_quality = Some Youtube, opt_resolution = Some R1080p\<rparr>
    in (cmd_videoCodec c, cmd_videoBitrate c, cmd_audioCodec c, cmd_audioBitrate c,
        cmd_audioFrequency c) =
         (Some ''libx264'', Some ''8000k'', Some ''aac'', Some ''320k'', Some 48000)
       \<and> cmd_size c = Some ''1920x1080'')"
  using crop_tier_table [of "''in.mp4''"
      "\<lparr>h_id = ''h1'', h_title = ''t'', startSeconds = 30, endSeconds = 45\<rparr>" "''out.mp4''"
      "\<lparr>opt_outputFormat = None, opt_quality = Some Youtube, opt_resolution = Some R1080p\<rparr>"]
  by (simp add: Let_def the_quality_def the_resolution_def)

text \<open>
  C8. For every crop request of the lossless tier, whatever resolution it asks for:
  the video and the audio stream are copied (no bitrate is set), the option
  \<open>-avoid_negative_ts make_zero\<close> that corrects the start-offset timestamps is
  applied, and no output size is set.
\<close>

theorem crop_lossless_stream_copy:
  assumes "the_quality opts = Lossless"
  shows "(let c = cropCommand inp h out opts in
            cmd_videoCodec c = Some ''copy'' \<and> cmd_audioCodec c = Some ''copy''
          \<and> cmd_videoBitrate c = None \<and> cmd_audioBitrate c = None
          \<and> ''-avoid_negative_ts make_zero'' \<in> set (cmd_options c)
          \<and> cmd_size c = None)"
proof -
  have enc: "(cmd_videoCodec (cropCommand inp h out opts), cmd_videoBitrate (cropCommand inp h out opts),
         cmd_audioCodec (cropCommand inp h out opts), cmd_audioBitrate (cropCommand inp h out opts),
         cmd_audioFrequency (cropCommand inp h out opts)) =
        (Some ''copy'', None, Some ''copy'', None, None)"
    unfolding cropCommand_encoding using assms by simp
  have sz: "cmd_size (cropCommand inp h out opts) = None"
    unfolding cropCommand_size using assms by simp
  have os: "''-avoid_negative_ts make_zero'' \<in> set (cmd_options (cropCommand inp h out opts))"
    unfolding cropCommand_lossless_options [OF assms] by simp
  from enc sz os show ?thesis by (simp add: Let_def)
qed

theorem crop_lossless_stream_copy_witness:
  "the_quality \<lparr>opt_outputFormat = None, opt_quality = Some Lossless,
                 opt_resolution = Some R1080p\<rparr> = Lossless
   \<and> (let c = cropCommand ''in.mp4''
              \<lparr>h_id = ''h1'', h_title = ''t'', startSeconds = 30, endSeconds = 45\<rparr> ''out.mp4''
              \<lparr>opt_outputFormat = None, opt_quality = Some Lossless,
                opt_resolution = Some R1080p\<rparr>
      in cmd_videoCodec c = Some ''copy'' \<and> cmd_audioCodec c = Some ''copy''
       \<and> cmd_videoBitrate c = None \<and> cmd_audioBitrate c = None
       \<and> ''-avoid_negative_ts make_zero'' \<in> set (cmd_options c)
       \<and> cmd_size c = None)"
proof -
  have q: "the_quality \<lparr>opt_outputFormat = None, opt_quality = Some Lossless,
                         opt_resolution = Some R1080p\<rparr> = Lossless"
    by (simp add: the_quality_def)
  show ?thesis
    using q crop_lossless_stream_copy [OF q, of "''in.mp4''"
      "\<lparr>h_id = ''h1'', h_title = ''t'', startSeconds = 30, endSeconds = 45\<rparr>" "''out.mp4''"]
    by simp
qed

section \<open>Properties of the crop loop\<close>

lemma cropVideo_fst:
  "fst (cropVideo od env ip h vid opts w) = cropOutcome od env ip h vid opts"
  by (simp add: cropOutcome_def cropVideo_def Let_def
      split: ffmpeg_outcome.splits option.splits)

lemma cropVideo_trace:
  "crop_trace (snd (cropVideo od env ip h vid opts w)) =
     crop_trace w @ cropEvents od env ip h vid opts"
  by (simp add: cropEvents_def cropVideo_def Let_def emptyCropWorld_def
      split: ffmpeg_outcome.splits option.splits)

text \<open>Every call settles before it returns; \<open>run()\<close> comes first when it is reached.\<close>

lemma cropEvents_shape:
  "cropEvents od env ip h vid opts =
     (let p = cropOutputPath od (crop_now env) h vid opts in
      case crop_ffmpeg env of
        FfmpegThrows \<Rightarrow> [CropSettled p False]
      | FfmpegError m \<Rightarrow> [CropRun (cropCommand ip h p opts), CropSettled p False]
      | FfmpegEnd None \<Rightarrow> [CropRun (cropCommand ip h p opts), CropSettled p False]
      | FfmpegEnd (Some n) \<Rightarrow> [CropRun (cropCommand ip h p opts), CropSettled p True])"
  by (simp add: cropEvents_def cropVideo_def Let_def emptyCropWorld_def
      split: ffmpeg_outcome.splits option.splits)

lemma cropLoop_results:
  "fst (cropLoop od envs ip vid opts i hs results w) =
     results @ List.map_filter
       (\<lambda>(k, h). case cropOutcome od (envs k) ip h vid opts of
                   Inr r \<Rightarrow> Some r | Inl e \<Rightarrow> None)
       (enumerate i hs)"
proof (induction hs arbitrary: i results w)
  case Nil
  then show ?case by (simp add: List.map_filter_simps)
next
  case (Cons h hs)
  obtain r w' where cv: "cropVideo od (envs i) ip h vid opts w = (r, w')"
    by (cases "cropVideo od (envs i) ip h vid opts w")
  then have r: "r = cropOutcome od (envs i) ip h vid opts"
    using cropVideo_fst [of od "envs i" ip h vid opts w] by simp
  show ?case
  proof (cases r)
    case (Inl e)
    then show ?thesis
      using cv r Cons.IH [of "Suc i" results w'] by (simp add: List.map_filter_simps)
  next
    case (Inr x)
    then show ?thesis
      using cv r Cons.IH [of "Suc i" "results @ [x]" w'] by (simp add: List.map_filter_simps)
  qed
qed

lemma cropLoop_trace:
  "crop_trace (snd (cropLoop od envs ip vid opts i hs results w)) =
     crop_trace w
     @ concat (map (\<lambda>(k, h). cropEvents od (envs k) ip h vid opts) (enumerate i hs))"
proof (induction hs arbitrary: i results w)
  case Nil
  then show ?case by simp
next
  case (Cons h hs)
  obtain r w' where cv: "cropVideo od (envs i) ip h vid opts w = (r, w')"
    by (cases "cropVideo od (envs i) ip h vid opts w")
  then have t: "crop_trace w' = crop_trace w @ cropEvents od (envs i) ip h vid opts"
    using cropVideo_trace [of od "envs i" ip h vid opts w] by simp
  show ?case
  proof (cases r)
    case (Inl e)
    then show ?thesis using cv t Cons.IH [of "Suc i" results w'] by simp
  next
    case (Inr x)
    then show ?thesis using cv t Cons.IH [of "Suc i" "results @ [x]" w'] by simp
  qed
qed

text \<open>The output paths of the example crops.\<close>

lemma example_crop_paths:
  "pathJoin ''out'' ''vid_a_Big_win_100.mp4'' = ''out/vid_a_Big_win_100.mp4''"
  "pathJoin ''out'' ''vid_b_x_101.mp4'' = ''out/vid_b_x_101.mp4''"
  "pathJoin ''out'' ''vid_c_y_102.mp4'' = ''out/vid_c_y_102.mp4''"
  by (simp_all add: pathJoin_def normalize_def normalizeStep_def)

text \<open>
  C10. For every list of highlights \<open>cropMultipleHighlights\<close> returns, and the list
  it returns holds exactly the results of the crops that succeeded, in the order of
  their highlights; a failed crop contributes nothing and stops nothing. The crops
  run one after the other in list order: the trace is the events of the first call
  (its \<open>run()\<close> and its settling), then those of the second, and so on.
\<close>

theorem cropMultipleHighlights_sequential:
  "fst (cropMultipleHighlights od envs ip hs vid opts w) =
     List.map_filter
       (\<lambda>(k, h). case cropOutcome od (envs k) ip h vid opts of
                   Inr r \<Rightarrow> Some r | Inl e \<Rightarrow> None)
       (enumerate 0 hs)
   \<and> crop_trace (snd (cropMultipleHighlights od envs ip hs vid opts w)) =
       crop_trace w
       @ concat (map (\<lambda>(k, h). cropEvents od (envs k) ip h vid opts) (enumerate 0 hs))"
  by (simp add: cropMultipleHighlights_def cropLoop_results cropLoop_trace)

theorem cropMultipleHighlights_sequential_witness:
  "map res_outputPath
     (fst (cropMultipleHighlights ''out'' exCropEnvs ''in.mp4'' exHighlights ''vid''
             \<lparr>opt_outputFormat = None, opt_quality = Some Lossless, opt_resolution = None\<rparr>
             emptyCropWorld))
     = [''out/vid_a_Big_win_100.mp4'', ''out/vid_c_y_102.mp4'']
   \<and> filter (\<lambda>e. case e of CropSettled p ok \<Rightarrow> True | CropRun c \<Rightarrow> False)
       (crop_trace (snd (cropMultipleHighlights ''out'' exCropEnvs ''in.mp4'' exHighlights ''vid''
             \<lparr>opt_outputFormat = None, opt_quality = Some Lossless, opt_resolution = None\<rparr>
             emptyCropWorld)))
     = [CropSettled ''out/vid_a_Big_win_100.mp4'' True,
        CropSettled ''out/vid_b_x_101.mp4'' False,
        CropSettled ''out/vid_c_y_102.mp4'' True]"
  using cropMultipleHighlights_sequential [of "''out''" exCropEnvs "''in.mp4''" exHighlights
      "''vid''" "\<lparr>opt_outputFormat = None, opt_quality = Some Lossless, opt_resolution = None\<rparr>"
      emptyCropWorld]
  by (simp add: exHighlights_def exCropEnvs_def emptyCropWorld_def enumerate_eq_zip upt_rec
      List.map_filter_simps cropOutcome_def cropEvents_def cropVideo_def Let_def
      cropOutputPath_def sanitizeFilename_def isAllowed_def isSpace_def showNat.simps
      example_crop_paths formatName_def the_outputFormat_def)


section \<open>Properties of the acquisition\<close>

subsection \<open>Files and traces\<close>

lemma files_emit [simp]: "files (emit es w) = files w"
  and trace_emit [simp]: "trace (emit es w) = trace w @ es"
  by (simp_all add: emit_def)

lemma files_createFile [simp]: "files (createFile p w) = insert p (files w)"
  and trace_createFile [simp]: "trace (createFile p w) = trace w"
  by (simp_all add: createFile_def)

lemma files_cleanupFile [simp]: "files (cleanupFile p w) = files w - {p}"
  and trace_cleanupFile [simp]: "trace (cleanupFile p w) = trace w"
  by (auto simp add: cleanupFile_def)

lemma files_completeOpens [simp]: "files (completeOpens ps w) = files w \<union> ps"
  and trace_completeOpens [simp]: "trace (completeOpens ps w) = trace w"
  by (simp_all add: completeOpens_def)

lemma downloadStream_files:
  "files (snd (downloadStream outcome p tag w)) \<subseteq> insert p (files w)"
  by (cases outcome) (auto simp: downloadStream_def Let_def)

lemma downloadStream_trace:
  "trace (snd (downloadStream outcome p tag w)) =
     trace w @ [YtdlItag p tag, StreamSettled p (outcome = Finish)]"
  by (cases outcome) (simp_all add: downloadStream_def Let_def)

lemma downloadStream_result:
  "(\<exists>u. fst (downloadStream outcome p tag w) = Inr u) \<longleftrightarrow> outcome = Finish"
  by (cases outcome) (simp_all add: downloadStream_def Let_def)

lemma merge_files:
  "files (snd (mergeStreamsWithFFmpeg outcome vp ap out w)) \<subseteq> insert out (files w)"
  by (cases outcome) (auto simp: mergeStreamsWithFFmpeg_def Let_def)

lemma merge_trace:
  "trace (snd (mergeStreamsWithFFmpeg outcome vp ap out w)) =
     trace w @ [FfmpegSpawn (ffmpegArgs vp ap out), FfmpegSettled (outcome = MergeClose 0)]"
  by (cases outcome) (simp_all add: mergeStreamsWithFFmpeg_def Let_def)

lemma separateStreams_files:
  "files (snd (separateStreams env tv ta formats out w))
     \<subseteq> insert out (insert tv (insert ta (files w)))"
proof (cases "bestVideoFormat formats")
  case None
  then show ?thesis by (auto simp: separateStreams_def)
next
  case (Some v)
  note v = this
  show ?thesis
  proof (cases "bestAudioFormat formats")
    case None
    with v show ?thesis by (auto simp: separateStreams_def)
  next
    case (Some a)
    note a = this
    obtain r1 w1 where d1: "downloadStream (env_video env) tv (itag v) w = (r1, w1)"
      by (cases "downloadStream (env_video env) tv (itag v) w")
    have f1: "files w1 \<subseteq> insert tv (files w)"
      using downloadStream_files [of "env_video env" tv "itag v" w] d1 by simp
    obtain r2 w2 where d2: "downloadStream (env_audio env) ta (itag a) w1 = (r2, w2)"
      by (cases "downloadStream (env_audio env) ta (itag a) w1")
    have f2: "files w2 \<subseteq> insert ta (files w1)"
      using downloadStream_files [of "env_audio env" ta "itag a" w1] d2 by simp
    obtain r3 w3 where d3: "mergeStreamsWithFFmpeg (env_merge env) tv ta out w2 = (r3, w3)"
      by (cases "mergeStreamsWithFFmpeg (env_merge env) tv ta out w2")
    have f3: "files w3 \<subseteq> insert out (files w2)"
      using merge_files [of "env_merge env" tv ta out w2] d3 by simp
    have "snd (separateStreams env tv ta formats out w) \<in> {w1, w2, w3}"
      using v a d1 d2 d3 by (auto simp: separateStreams_def split: sum.splits)
    with f1 f2 f3 show ?thesis by auto
  qed
qed

text \<open>
  The requests of the separate-stream path, in every run: the video stream is asked
  for and settles, only then (and only when it finished) the audio stream is asked
  for and settles, only then (and only when it finished) the merge is spawned.
\<close>

lemma separateStreams_trace:
  assumes "bestVideoFormat formats = Some v" and "bestAudioFormat formats = Some a"
  shows "trace (snd (separateStreams env tv ta formats out w)) =
     trace w @ [YtdlItag tv (itag v), StreamSettled tv (env_video env = Finish)]
     @ (if env_video env = Finish
        then [YtdlItag ta (itag a), StreamSettled ta (env_audio env = Finish)]
             @ (if env_audio env = Finish
                then [FfmpegSpawn (ffmpegArgs tv ta out),
                      FfmpegSettled (env_merge env = MergeClose 0)]
                else [])
        else [])"
proof -
  obtain r1 w1 where d1: "downloadStream (env_video env) tv (itag v) w = (r1, w1)"
    by (cases "downloadStream (env_video env) tv (itag v) w")
  have t1: "trace w1 = trace w @ [YtdlItag tv (itag v), StreamSettled tv (env_video env = Finish)]"
    using downloadStream_trace [of "env_video env" tv "itag v" w] d1 by simp
  have r1: "(\<exists>u. r1 = Inr u) \<longleftrightarrow> env_video env = Finish"
    using downloadStream_result [of "env_video env" tv "itag v" w] d1 by simp
  obtain r2 w2 where d2: "downloadStream (env_audio env) ta (itag a) w1 = (r2, w2)"
    by (cases "downloadStream (env_audio env) ta (itag a) w1")
  have t2: "trace w2 = trace w1 @ [YtdlItag ta (itag a), StreamSettled ta (env_audio env = Finish)]"
    using downloadStream_trace [of "env_audio env" ta "itag a" w1] d2 by simp
  have r2: "(\<exists>u. r2 = Inr u) \<longleftrightarrow> env_audio env = Finish"
    using downloadStream_result [of "env_audio env" ta "itag a" w1] d2 by simp
  obtain r3 w3 where d3: "mergeStreamsWithFFmpeg (env_merge env) tv ta out w2 = (r3, w3)"
    by (cases "mergeStreamsWithFFmpeg (env_merge env) tv ta out w2")
  have t3: "trace w3 = trace w2 @ [FfmpegSpawn (ffmpegArgs tv ta out),
                                   FfmpegSettled (env_merge env = MergeClose 0)]"
    using merge_trace [of "env_merge env" tv ta out w2] d3 by simp
  show ?thesis
  proof (cases r1)
    case (Inl e)
    then show ?thesis using assms d1 t1 r1 by (auto simp: separateStreams_def)
  next
    case (Inr u1)
    note i1 = this
    show ?thesis
    proof (cases r2)
      case (Inl e)
      then show ?thesis using assms d1 d2 t1 t2 r1 r2 i1 by (auto simp: separateStreams_def)
    next
      case (Inr u2)
      then show ?thesis using assms d1 d2 d3 t1 t2 t3 r1 r2 i1
        by (cases r3) (auto simp: separateStreams_def)
    qed
  qed
qed

text \<open>The paths of the example runs, and unfolding the acquisition on concrete inputs.\<close>

lemma example_paths:
  "pathJoin ''t'' ''v_1.mp4'' = ''t/v_1.mp4''"
  "pathJoin ''t'' ''v_video_5.mp4'' = ''t/v_video_5.mp4''"
  "pathJoin ''t'' ''v_audio_6.webm'' = ''t/v_audio_6.webm''"
  "pathJoin ''t'' ''v_video_15.mp4'' = ''t/v_video_15.mp4''"
  "pathJoin ''t'' ''v_audio_16.webm'' = ''t/v_audio_16.webm''"
  "pathJoin ''t'' ''v_video_25.mp4'' = ''t/v_video_25.mp4''"
  "pathJoin ''t'' ''v_audio_26.webm'' = ''t/v_audio_26.webm''"
  by (simp_all add: pathJoin_def normalize_def normalizeStep_def)

lemmas eval_defs =
  downloadVideo_def downloadAttempt_def downloadAndMergeStreams_def separateStreams_def
  downloadStream_def mergeStreamsWithFFmpeg_def downloadCombined_def
  bestVideoFormat_def bestAudioFormat_def mp4VideoFormats_def preferredAudioFormats_def
  highResVideoFormats_def filterFormats_def firstOr_def sortDescending_def hasHeight_def
  heightOf_def tempVideoName_def tempAudioName_def example_paths
  showNat.simps opened_def pendingOpen_def pendingOpens_def completeOpens_def
  formatName_def the_dl_quality_def the_dl_format_def emit_def createFile_def cleanupFile_def
  ffmpegArgs_def fallbackOptions_def Let_def

lemmas example_defs =
  exCatalog_def webmAudioCatalog_def videoOnlyCatalog_def audioOnlyCatalog_def exEnv_def
  exEnvs_def
  emptyWorld_def highestOptions_def progressOptions_def exChunks_def

subsection \<open>Temporary files of the separate-stream path\<close>

text \<open>
  When the write stream of each download has created its file before the download
  fails or finishes, neither temporary file exists after \<open>downloadAndMergeStreams\<close>,
  and no file exists that did not exist before, the output path apart.
\<close>

lemma temp_files_deleted_when_opened:
  assumes "opened (env_video env)" and "opened (env_audio env)"
  shows "(let w' = snd (downloadAndMergeStreams tempDir env videoId formats outputPath w) in
            pathJoin tempDir (tempVideoName videoId (env_videoNow env)) \<notin> files w'
          \<and> pathJoin tempDir (tempAudioName videoId (env_audioNow env)) \<notin> files w'
          \<and> files w' \<subseteq> insert outputPath (files w))"
proof -
  have p: "pendingOpens env tv ta formats = {}" for tv ta
    using assms by (simp add: pendingOpens_def pendingOpen_def split: option.splits)
  show ?thesis
    using separateStreams_files
      [of env "pathJoin tempDir (tempVideoName videoId (env_videoNow env))"
         "pathJoin tempDir (tempAudioName videoId (env_audioNow env))" formats outputPath w]
    by (auto simp: downloadAndMergeStreams_def Let_def p split: prod.splits)
qed

text \<open>
  C6. A run of \<open>downloadAndMergeStreams\<close> on the example catalog in which the video
  stream emits \<open>'error'\<close> before its write stream has created the temporary file.
  The \<open>cleanupFile\<close> of the error handler and the two of the \<open>finally\<close> block
  find no file and remove nothing; the open then completes. The operation fails, and
  the temporary video file exists afterwards.
\<close>

theorem temp_file_left_after_early_error:
  "downloadAndMergeStreams ''t'' (exEnv (EarlyError ''reset'')) ''v'' exCatalog ''t/v_1.mp4''
     emptyWorld =
     (Inl (StreamFailure ''reset''),
      \<lparr>files = {''t/v_video_5.mp4''},
        trace = [YtdlItag ''t/v_video_5.mp4'' 137,
                 StreamSettled ''t/v_video_5.mp4'' False]\<rparr>)"
  by (simp add: example_defs eval_defs)

subsection \<open>Order of the two stream downloads\<close>

text \<open>
  C3. A run of the separate-stream path on the example catalog in which both
  downloads and the merge succeed: the audio stream is requested only after the
  video stream download has settled; the two downloads never overlap.
\<close>

theorem separate_downloads_run_in_sequence:
  "trace (snd (downloadAndMergeStreams ''t'' (exEnv Finish) ''v'' exCatalog ''t/v_1.mp4''
                 emptyWorld)) =
     [YtdlItag ''t/v_video_5.mp4'' 137,
      StreamSettled ''t/v_video_5.mp4'' True,
      YtdlItag ''t/v_audio_6.webm'' 251,
      StreamSettled ''t/v_audio_6.webm'' True,
      FfmpegSpawn (ffmpegArgs ''t/v_video_5.mp4'' ''t/v_audio_6.webm'' ''t/v_1.mp4''),
      FfmpegSettled True]"
  by (simp add: example_defs eval_defs)

subsection \<open>Retries\<close>

text \<open>
  A \<open>'highest'\<close> request on a catalog with a video-only format of 720p or more
  takes the separate-stream path on every attempt, the first or a retry.
\<close>

lemma downloadAttempt_highest:
  assumes "env_info env = Inr formats" and "the_dl_quality options = Highest"
      and "highResVideoFormats formats \<noteq> []"
  shows "downloadAttempt tempDir videoId options filePath attempt env w =
           downloadAndMergeStreams tempDir env videoId formats filePath w"
proof -
  have "filterFormats formats VideoOnly \<noteq> []"
    using assms(3) by (auto simp: highResVideoFormats_def)
  then show ?thesis using assms by (simp add: downloadAttempt_def Let_def)
qed

text \<open>Any other request, on a retry, uses the fallback options.\<close>

lemma downloadAttempt_fallback:
  assumes "env_info env = Inr formats"
      and "filterFormats formats VideoAndAudio \<noteq> [] \<or> filterFormats formats VideoOnly \<noteq> []"
      and "the_dl_quality options \<noteq> Highest \<or> highResVideoFormats formats = []"
      and "1 < attempt"
  shows "downloadAttempt tempDir videoId options filePath attempt env w =
           downloadCombined options filePath fallbackOptions env w"
  using assms by (auto simp: downloadAttempt_def Let_def)

text \<open>
  C1. A \<open>'highest'\<close> request with three attempts on the example catalog (1080p and
  2160p video-only formats); the video stream of the first attempt fails. The second
  attempt requests the video-only format 137 and the audio-only format 251 and merges
  them: it takes the separate-stream path again, and no combined download with the
  fallback options is ever requested.
\<close>

theorem retry_repeats_separate_streams:
  "downloadVideo ''t'' 1 ''v'' highestOptions 3 exEnvs emptyWorld =
    (Inr ''t/v_1.mp4'',
     \<lparr>files = {''t/v_1.mp4''},
       trace =
         [Attempt 1,
          YtdlItag ''t/v_video_15.mp4'' 137,
          StreamSettled ''t/v_video_15.mp4'' False,
          Delay 2000,
          Attempt 2,
          YtdlItag ''t/v_video_25.mp4'' 137,
          StreamSettled ''t/v_video_25.mp4'' True,
          YtdlItag ''t/v_audio_26.webm'' 251,
          StreamSettled ''t/v_audio_26.webm'' True,
          FfmpegSpawn
            [''-i'', ''t/v_video_25.mp4'', ''-i'', ''t/v_audio_26.webm'', ''-c:v'', ''copy'',
             ''-c:a'', ''aac'', ''-strict'', ''experimental'', ''-shortest'', ''-y'',
             ''t/v_1.mp4''],
          FfmpegSettled True]\<rparr>)"
  by (simp add: example_defs eval_defs retryLoop.simps insert_Diff_if)

subsection \<open>The source cache lookup\<close>

text \<open>
  C9. While a separate-stream acquisition of the source \<open>v\<close> is under way the
  directory holds its temporary video-only file (it is there once the video stream
  download has finished, until the \<open>finally\<close> block runs) and no finished
  download. The lookup for \<open>v\<close> answers with the path of that temporary file.
\<close>

theorem hasVideoFile_returns_temp_stream_file:
  "pathJoin ''t'' (tempVideoName ''v'' 5)
     \<in> files (snd (downloadStream Finish (pathJoin ''t'' (tempVideoName ''v'' 5)) 137 emptyWorld))
   \<and> hasVideoFile ''t'' 1000 [(tempVideoName ''v'' 5, 900)] ''v'' =
       (Some (pathJoin ''t'' (tempVideoName ''v'' 5)), [(tempVideoName ''v'' 5, 900)])
   \<and> pathJoin ''t'' (tempVideoName ''v'' 5) = ''t/v_video_5.mp4''"
  by (simp add: hasVideoFile_def startsWith_def maxFileAge_def tempVideoName_def example_paths
      showNat.simps downloadStream_def Let_def)

subsection \<open>The separate-stream selection\<close>








subsection \<open>The no-suitable-format error\<close>

lemma downloadCombined_not_NoSuitable:
  "fst (downloadCombined options filePath so env w) \<noteq> Inl NoSuitableFormats"
  by (cases "env_stream env") (simp_all add: downloadCombined_def Let_def)

lemma downloadStream_not_NoSuitable:
  "fst (downloadStream outcome p tag w) \<noteq> Inl NoSuitableFormats"
  by (cases outcome) (simp_all add: downloadStream_def Let_def)

lemma merge_not_NoSuitable:
  "fst (mergeStreamsWithFFmpeg outcome vp ap out w) \<noteq> Inl NoSuitableFormats"
  by (cases outcome) (simp_all add: mergeStreamsWithFFmpeg_def Let_def)

lemma separateStreams_not_NoSuitable:
  "fst (separateStreams env tv ta formats out w) \<noteq> Inl NoSuitableFormats"
proof (cases "bestVideoFormat formats")
  case None
  then show ?thesis by (simp add: separateStreams_def)
next
  case (Some v)
  note v = this
  show ?thesis
  proof (cases "bestAudioFormat formats")
    case None
    with v show ?thesis by (simp add: separateStreams_def)
  next
    case (Some a)
    obtain r1 w1 where d1: "downloadStream (env_video env) tv (itag v) w = (r1, w1)"
      by (cases "downloadStream (env_video env) tv (itag v) w")
    obtain r2 w2 where d2: "downloadStream (env_audio env) ta (itag a) w1 = (r2, w2)"
      by (cases "downloadStream (env_audio env) ta (itag a) w1")
    obtain r3 w3 where d3: "mergeStreamsWithFFmpeg (env_merge env) tv ta out w2 = (r3, w3)"
      by (cases "mergeStreamsWithFFmpeg (env_merge env) tv ta out w2")
    have "r1 \<noteq> Inl NoSuitableFormats"
      using downloadStream_not_NoSuitable [of "env_video env" tv "itag v" w] d1 by simp
    moreover have "r2 \<noteq> Inl NoSuitableFormats"
      using downloadStream_not_NoSuitable [of "env_audio env" ta "itag a" w1] d2 by simp
    moreover have "r3 \<noteq> Inl NoSuitableFormats"
      using merge_not_NoSuitable [of "env_merge env" tv ta out w2] d3 by simp
    ultimately show ?thesis
      using v Some d1 d2 d3 by (auto simp: separateStreams_def split: sum.splits)
  qed
qed

lemma downloadAndMergeStreams_not_NoSuitable:
  "fst (downloadAndMergeStreams tempDir env videoId formats out w) \<noteq> Inl NoSuitableFormats"
  using separateStreams_not_NoSuitable
    [of env "pathJoin tempDir (tempVideoName videoId (env_videoNow env))"
      "pathJoin tempDir (tempAudioName videoId (env_audioNow env))" formats out w]
  by (auto simp: downloadAndMergeStreams_def Let_def split: prod.splits)

text \<open>One attempt: the error is raised by the catalog check and by nothing else.\<close>

lemma downloadAttempt_NoSuitable_iff:
  "fst (downloadAttempt tempDir videoId options filePath attempt env w) = Inl NoSuitableFormats
   \<longleftrightarrow> (\<exists>formats. env_info env = Inr formats
          \<and> filterFormats formats VideoAndAudio = [] \<and> filterFormats formats VideoOnly = [])"
proof (cases "env_info env")
  case (Inl msg)
  then show ?thesis by (simp add: downloadAttempt_def)
next
  case (Inr formats)
  then show ?thesis
    using downloadAndMergeStreams_not_NoSuitable [of tempDir env videoId formats filePath w]
      downloadCombined_not_NoSuitable [of options filePath _ env w]
    by (simp add: downloadAttempt_def Let_def)
qed

text \<open>When every attempt fails with the same error, so does the loop.\<close>

lemma retryLoop_all_fail:
  assumes "\<And>n w'. fst (downloadAttempt tempDir videoId options filePath n (envs n) w') = Inl E"
      and "attempt \<le> maxRetries \<or> lastError = Some E"
  shows "fst (retryLoop tempDir videoId options filePath maxRetries envs attempt lastError w)
           = Inl E"
  using assms
proof (induction tempDir videoId options filePath maxRetries envs attempt lastError w
       rule: retryLoop.induct)
  case (1 tempDir videoId options filePath maxRetries envs attempt lastError w)
  show ?case
  proof (cases "attempt \<le> maxRetries")
    case False
    with "1.prems"(2) show ?thesis by (simp add: retryLoop.simps)
  next
    case True
    obtain r w' where d: "downloadAttempt tempDir videoId options filePath attempt (envs attempt)
                (emit [Attempt attempt] w) = (r, w')"
      by (cases "downloadAttempt tempDir videoId options filePath attempt (envs attempt)
                (emit [Attempt attempt] w)")
    have r: "r = Inl E" using "1.prems"(1) [of attempt "emit [Attempt attempt] w"] d by simp
    have "fst (retryLoop tempDir videoId options filePath maxRetries envs (Suc attempt) (Some E)
            (if attempt < maxRetries then emit [Delay (2 ^ attempt * 1000)] w' else w')) = Inl E"
      using "1.IH" [OF True d [symmetric] r] "1.prems"(1) by simp
    then show ?thesis
      using True d r
      by (subst retryLoop.simps) simp
  qed
qed

text \<open>The error of the loop is the error of one of its attempts, or the one it starts with.\<close>

lemma retryLoop_error:
  assumes "\<And>n w' e. fst (downloadAttempt tempDir videoId options filePath n (envs n) w') = Inl e
             \<Longrightarrow> Q e"
      and "case lastError of Some e \<Rightarrow> Q e | None \<Rightarrow> Q AllRetriesFailed"
      and "fst (retryLoop tempDir videoId options filePath maxRetries envs attempt lastError w)
             = Inl e"
  shows "Q e"
  using assms
proof (induction tempDir videoId options filePath maxRetries envs attempt lastError w
       rule: retryLoop.induct)
  case (1 tempDir videoId options filePath maxRetries envs attempt lastError w)
  show ?case
  proof (cases "attempt \<le> maxRetries")
    case False
    with "1.prems"(2,3) show ?thesis by (simp add: retryLoop.simps split: option.splits)
  next
    case True
    obtain r w' where d: "downloadAttempt tempDir videoId options filePath attempt (envs attempt)
                (emit [Attempt attempt] w) = (r, w')"
      by (cases "downloadAttempt tempDir videoId options filePath attempt (envs attempt)
                (emit [Attempt attempt] w)")
    show ?thesis
    proof (cases r)
      case (Inr p)
      with True d "1.prems"(3) show ?thesis by (simp add: retryLoop.simps)
    next
      case (Inl e')
      have q: "Q e'" using "1.prems"(1) [of attempt "emit [Attempt attempt] w" e'] d Inl by simp
      have "fst (retryLoop tempDir videoId options filePath maxRetries envs (Suc attempt) (Some e')
            (if attempt < maxRetries then emit [Delay (2 ^ attempt * 1000)] w' else w')) = Inl e"
        using "1.prems"(3) True d Inl by (subst (asm) retryLoop.simps) simp
      then show ?thesis
        using "1.IH" [OF True d [symmetric] Inl] "1.prems"(1) q by simp
    qed
  qed
qed

text \<open>
  C5 (as the code has it). For a source whose catalog is \<open>formats\<close> at every attempt
  and at least one attempt allowed, \<open>downloadVideo\<close> fails with the
  no-suitable-format error exactly when the catalog has neither a combined format
  nor a video-only format. Audio-only formats play no part in it.
\<close>

theorem no_suitable_format_iff:
  assumes "\<forall>n. env_info (envs n) = Inr formats" and "1 \<le> maxRetries"
  shows "fst (downloadVideo tempDir now videoId options maxRetries envs w) = Inl NoSuitableFormats
         \<longleftrightarrow> filterFormats formats VideoAndAudio = [] \<and> filterFormats formats VideoOnly = []"
proof
  assume L: "fst (downloadVideo tempDir now videoId options maxRetries envs w)
               = Inl NoSuitableFormats"
  show "filterFormats formats VideoAndAudio = [] \<and> filterFormats formats VideoOnly = []"
  proof (rule ccontr)
    assume N: "\<not> (filterFormats formats VideoAndAudio = []
                 \<and> filterFormats formats VideoOnly = [])"
    have a: "fst (downloadAttempt tempDir videoId options fp n (envs n) w') = Inl e
             \<Longrightarrow> e \<noteq> NoSuitableFormats" for fp n w' e
      using downloadAttempt_NoSuitable_iff [of tempDir videoId options fp n "envs n" w']
        assms(1) N
      by auto
    have "NoSuitableFormats \<noteq> NoSuitableFormats"
      using L unfolding downloadVideo_def Let_def
      by (rule retryLoop_error [where Q = "\<lambda>e. e \<noteq> NoSuitableFormats", rotated 2])
         (auto dest: a)
    then show False by simp
  qed
next
  assume R: "filterFormats formats VideoAndAudio = [] \<and> filterFormats formats VideoOnly = []"
  have a: "fst (downloadAttempt tempDir videoId options fp n (envs n) w') = Inl NoSuitableFormats"
    for fp n w'
    using downloadAttempt_NoSuitable_iff [of tempDir videoId options fp n "envs n" w']
      assms(1) R
    by auto
  show "fst (downloadVideo tempDir now videoId options maxRetries envs w) = Inl NoSuitableFormats"
    unfolding downloadVideo_def Let_def
    by (rule retryLoop_all_fail) (use a assms(2) in auto)
qed

theorem no_suitable_format_iff_witness:
  "(\<forall>n. env_info ((exEnv Finish)\<lparr>env_info := Inr audioOnlyCatalog\<rparr>) = Inr audioOnlyCatalog)
   \<and> (1::nat) \<le> 3
   \<and> fst (downloadVideo ''t'' 1 ''v'' highestOptions 3
            (\<lambda>n. (exEnv Finish)\<lparr>env_info := Inr audioOnlyCatalog\<rparr>) emptyWorld)
       = Inl NoSuitableFormats"
proof -
  have h: "\<forall>n::nat. env_info ((\<lambda>n. (exEnv Finish)\<lparr>env_info := Inr audioOnlyCatalog\<rparr>) n)
             = Inr audioOnlyCatalog"
    by simp
  have m: "(1::nat) \<le> 3" by simp
  show ?thesis
    using no_suitable_format_iff [OF h m, of "''t''" 1 "''v''" highestOptions emptyWorld]
    by (simp add: audioOnlyCatalog_def filterFormats_def)
qed

text \<open>
  A catalog with one 480p video-only format, no audio-only and no combined format:
  the first attempt downloads the video-only stream and the acquisition returns its
  path.
\<close>

theorem no_suitable_format_counterexample:
  "filterFormats videoOnlyCatalog VideoAndAudio = []
   \<and> filterFormats videoOnlyCatalog AudioOnly = []
   \<and> downloadVideo ''t'' 1 ''v'' highestOptions 3
        (\<lambda>n. (exEnv Finish)\<lparr>env_info := Inr videoOnlyCatalog\<rparr>) emptyWorld =
       (Inr ''t/v_1.mp4'',
        \<lparr>files = {''t/v_1.mp4''},
          trace = [Attempt 1,
                   YtdlStream ''t/v_1.mp4''
                     \<lparr>so_quality = Highest, so_filter = VideoOnly, so_requestOptions = True\<rparr>,
                   StreamSettled ''t/v_1.mp4'' True]\<rparr>)"
  by (simp add: example_defs eval_defs retryLoop.simps)

subsection \<open>Progress reporting\<close>

lemma reported_append [simp]: "reported (xs @ ys) = reported xs @ reported ys"
  by (induction xs rule: reported.induct) simp_all

lemma logged_append [simp]: "logged (xs @ ys) = logged xs @ logged ys"
  by (induction xs rule: logged.induct) simp_all

lemma reported_progressEvents:
  "reported (progressEvents cb lastUpdate cs) = (if cb then cs else [])"
  by (induction cs arbitrary: lastUpdate) simp_all

lemma logged_progressEvents:
  "spaced lastUpdate (logged (progressEvents cb lastUpdate cs))"
  by (induction cs arbitrary: lastUpdate) (auto simp: logDue_def)

lemma downloadCombined_trace:
  "trace (snd (downloadCombined options filePath so env w)) =
     trace w @ YtdlStream filePath so
       # progressEvents (dl_onProgress options) (env_streamStart env) (env_chunks env)
     @ [StreamSettled filePath (env_stream env = Finish)]"
  by (cases "env_stream env") (simp_all add: downloadCombined_def Let_def)

text \<open>
  C4 (as the code has it). In every combined download with a progress callback the
  callback is invoked once for every progress event of the stream, in order, whatever
  the time between two events; without a callback it is never invoked. The limit of
  one emission per 2 seconds, plus the events at 100\%, holds for the progress log
  line.
\<close>

theorem progress_callback_every_chunk:
  "reported (trace (snd (downloadCombined options filePath so env emptyWorld))) =
     (if dl_onProgress options then env_chunks env else [])
   \<and> spaced (env_streamStart env)
       (logged (trace (snd (downloadCombined options filePath so env emptyWorld))))"
  by (simp add: downloadCombined_trace emptyWorld_def reported_progressEvents
      logged_progressEvents)

theorem progress_callback_every_chunk_witness:
  "reported (trace (snd (downloadCombined progressOptions ''t/v_1.mp4'' fallbackOptions
       ((exEnv Finish)\<lparr>env_chunks := exChunks\<rparr>) emptyWorld))) = exChunks
   \<and> logged (trace (snd (downloadCombined progressOptions ''t/v_1.mp4'' fallbackOptions
       ((exEnv Finish)\<lparr>env_chunks := exChunks\<rparr>) emptyWorld))) = [hd exChunks]"
  using progress_callback_every_chunk [of progressOptions "''t/v_1.mp4''" fallbackOptions
      "(exEnv Finish)\<lparr>env_chunks := exChunks\<rparr>"]
  by (simp add: downloadCombined_trace emptyWorld_def progressOptions_def exEnv_def
      exChunks_def logDue_def at100_def)

text \<open>
  Two progress events 100 ms apart, neither at 100\%: the callback is invoked for
  both.
\<close>

theorem progress_callback_counterexample:
  "\<not> spaced 0 (reported (trace (snd (downloadCombined progressOptions ''t/v_1.mp4''
        fallbackOptions ((exEnv Finish)\<lparr>env_chunks := exChunks\<rparr>) emptyWorld))))"
  by (simp add: downloadCombined_trace emptyWorld_def progressOptions_def exEnv_def
      exChunks_def logDue_def at100_def)


end
